theory Spec2Isabelle
  imports Main
begin

section \<open>The api-member directive of \<^verbatim>\<open>template/_extensions/apimember.py\<close>\<close>

text \<open>
  The extension defines one directive handler, \<^verbatim>\<open>ApiMemberDirective.run\<close>, a helper
  \<^verbatim>\<open>make_div_node\<close> and the entry point \<^verbatim>\<open>setup\<close>. The handler reads its options from
  a dictionary of texts, builds a tree of docutils nodes and returns a list of nodes.
  Three things outside the file take part and are made explicit here:
  \<^item> Python's built-in \<^verbatim>\<open>int\<close> and \<^verbatim>\<open>str\<close> on integers (\<open>int_of_str\<close>, \<open>str\<close>);
  \<^item> the host's parser (\<^verbatim>\<open>nested_parse_with_titles\<close>, \<^verbatim>\<open>self.state.nested_parse\<close>), taken
    as two functions from lines to nodes that the directive instance carries;
  \<^item> the process-wide random source behind \<^verbatim>\<open>uuid.uuid4().hex\<close>, the sequence of its
    future draws, threaded through \<open>run\<close>.
\<close>

subsection \<open>Errors\<close>

text \<open>
  \<open>ValueError\<close> is Python's built-in exception, raised by \<^verbatim>\<open>int\<close> on a text that is
  not an integer literal. \<open>DirectiveError\<close> is the error of the host toolkit, reported
  when a conversion function of \<^verbatim>\<open>option_spec\<close> rejects an option value.
\<close>

datatype error = ValueError | DirectiveError

subsection \<open>Python's \<^verbatim>\<open>int\<close> on a text and \<^verbatim>\<open>str\<close> on an integer\<close>

text \<open>
  \<^verbatim>\<open>int(s)\<close> in base 10: whitespace is stripped at both ends, an optional sign follows,
  then decimal digits, where single underscores may stand between digits. Everything
  else raises \<^verbatim>\<open>ValueError\<close>, and so does a literal of more than 4300 digits (the
  interpreter's default limit). The model covers ASCII text; the decimal digits and
  the whitespace of other scripts, which Python accepts too, are not modelled.
\<close>

definition isspace :: "char \<Rightarrow> bool" where
  "isspace c = (c \<in> set [CHR 0x09, CHR 0x0A, CHR 0x0B, CHR 0x0C, CHR 0x0D, CHR 0x20])"

definition strip :: "string \<Rightarrow> string" where
  "strip s = rev (dropWhile isspace (rev (dropWhile isspace s)))"

definition digit_value :: "char \<Rightarrow> nat option" where
  "digit_value c = map_of (zip ''0123456789'' [0, 1, 2, 3, 4, 5, 6, 7, 8, 9]) c"

fun digits :: "string \<Rightarrow> nat list option" where
  "digits [] = None"
| "digits [c] = map_option (\<lambda>d. [d]) (digit_value c)"
| "digits (c # c' # cs) =
     (case digit_value c of
        None \<Rightarrow> None
      | Some d \<Rightarrow> map_option ((#) d) (if c' = CHR ''_'' then digits cs else digits (c' # cs)))"

definition max_str_digits :: nat where
  "max_str_digits = 4300"

definition int_of_str :: "string \<Rightarrow> error + int" where
  "int_of_str s =
     (let t = strip s;
          negative = (t \<noteq> [] \<and> hd t = CHR ''-'');
          body = (if t \<noteq> [] \<and> (hd t = CHR ''-'' \<or> hd t = CHR ''+'') then tl t else t)
      in case digits body of
           None \<Rightarrow> Inl ValueError
         | Some ds \<Rightarrow>
             if max_str_digits < length ds then Inl ValueError
             else let v = int (foldl (\<lambda>a d. 10 * a + d) 0 ds)
                  in Inr (if negative then - v else v))"

function str_nat :: "nat \<Rightarrow> string" where
  "str_nat n =
     (if n < 10 then [''0123456789'' ! n]
      else str_nat (n div 10) @ [''0123456789'' ! (n mod 10)])"
  by pat_completeness auto
termination
  by (relation "measure id") auto

definition str :: "int \<Rightarrow> string" where
  "str i = (if i < 0 then CHR ''-'' # str_nat (nat (- i)) else str_nat (nat i))"

subsection \<open>Nodes of the host toolkit\<close>

text \<open>
  A docutils node is a text leaf or an element with a tag name, the list attributes
  \<^verbatim>\<open>ids\<close> and \<^verbatim>\<open>classes\<close>, further attributes given at construction, and children.
  The other list attributes (\<^verbatim>\<open>names\<close>, \<^verbatim>\<open>dupnames\<close>, \<^verbatim>\<open>backrefs\<close>) stay empty in
  this file and are left out.
\<close>

datatype attr = BoolAttr bool | StrAttr string

datatype node =
    Text string
  | Element string "string list" "string list" "(string \<times> attr) list" "node list"

fun tagname :: "node \<Rightarrow> string" where
  "tagname (Text s) = ''#text''"
| "tagname (Element t i c a ch) = t"


fun classes :: "node \<Rightarrow> string list" where
  "classes (Text s) = []"
| "classes (Element t i c a ch) = c"

fun attributes :: "node \<Rightarrow> (string \<times> attr) list" where
  "attributes (Text s) = []"
| "attributes (Element t i c a ch) = a"

fun children :: "node \<Rightarrow> node list" where
  "children (Text s) = []"
| "children (Element t i c a ch) = ch"

text \<open>\<^verbatim>\<open>node['ids'] = v\<close>, \<^verbatim>\<open>node['classes'].append(c)\<close>, \<^verbatim>\<open>node.extend(xs)\<close>,
  \<^verbatim>\<open>node.append(x)\<close>.\<close>

fun set_ids :: "string list \<Rightarrow> node \<Rightarrow> node" where
  "set_ids v (Text s) = Text s"
| "set_ids v (Element t i c a ch) = Element t v c a ch"

fun append_class :: "string \<Rightarrow> node \<Rightarrow> node" where
  "append_class x (Text s) = Text s"
| "append_class x (Element t i c a ch) = Element t i (c @ [x]) a ch"

fun node_extend :: "node \<Rightarrow> node list \<Rightarrow> node" where
  "node_extend (Text s) xs = Text s"
| "node_extend (Element t i c a ch) xs = Element t i c a (ch @ xs)"

definition node_append :: "node \<Rightarrow> node \<Rightarrow> node" where
  "node_append n x = node_extend n [x]"

text \<open>
  \<^verbatim>\<open>nodes.container()\<close>, \<^verbatim>\<open>nodes.section()\<close> and \<^verbatim>\<open>nodes.paragraph()\<close> build empty
  elements. \<^verbatim>\<open>rubric\<close>, \<^verbatim>\<open>paragraph\<close> and \<^verbatim>\<open>reference\<close> are text elements: their
  constructor takes a text and adds it as a text leaf, unless it is the empty text.
\<close>

definition element :: "string \<Rightarrow> node" where
  "element t = Element t [] [] [] []"

definition text_element :: "string \<Rightarrow> string \<Rightarrow> (string \<times> attr) list \<Rightarrow> node" where
  "text_element t txt atts = Element t [] [] atts (if txt = [] then [] else [Text txt])"

text \<open>
  \<^verbatim>\<open>astext\<close>: the text of a leaf, and for an element the texts of its children, joined
  by the element's separator (empty for text elements, a blank line otherwise).
\<close>

fun join :: "string \<Rightarrow> string list \<Rightarrow> string" where
  "join sep [] = []"
| "join sep [x] = x"
| "join sep (x # y # ys) = x @ sep @ join sep (y # ys)"

definition child_text_separator :: "string \<Rightarrow> string" where
  "child_text_separator t =
     (if t \<in> set [''rubric'', ''paragraph'', ''reference''] then [] else [CHR 0x0A, CHR 0x0A])"

fun astext :: "node \<Rightarrow> string" where
  "astext (Text s) = s"
| "astext (Element t i c a ch) = join (child_text_separator t) (map astext ch)"

subsection \<open>The directive instance\<close>

text \<open>
  \<^verbatim>\<open>self.state\<close> is the host's parser state. Of it the file uses two operations, each
  parsing lines of markup and appending the resulting nodes to a given node; they are
  modelled by the list of nodes they append.
\<close>

record state =
  nested_parse_with_titles :: "string list \<Rightarrow> node list"
  nested_parse :: "string list \<Rightarrow> nat \<Rightarrow> node list"

record directive =
  options :: "string \<rightharpoonup> string"
  content :: "string list"
  content_offset :: nat
  state :: state

text \<open>
  \<^verbatim>\<open>directives.unchanged\<close>, the conversion function that \<^verbatim>\<open>option_spec\<close> gives to every
  option: it returns the option's text as it is (the empty text when the option has no
  value) and rejects nothing.
\<close>

definition unchanged :: "string option \<Rightarrow> error + string" where
  "unchanged argument = (case argument of None \<Rightarrow> Inr [] | Some a \<Rightarrow> Inr a)"

definition option_spec :: "(string \<times> (string option \<Rightarrow> error + string)) list" where
  "option_spec =
     [(''type'', unchanged), (''name'', unchanged), (''annotation'', unchanged),
      (''refid'', unchanged), (''refname'', unchanged), (''depth'', unchanged)]"

subsection \<open>The random source\<close>

text \<open>
  \<^verbatim>\<open>uuid.uuid4().hex\<close> reads the process-wide random source. The source is the sequence
  of the texts that its future calls return; a call takes the first and leaves the rest.
\<close>

type_synonym random_source = "nat \<Rightarrow> string"

definition uuid4_hex :: "random_source \<Rightarrow> string \<times> random_source" where
  "uuid4_hex rng = (rng 0, \<lambda>n. rng (Suc n))"

subsection \<open>\<^verbatim>\<open>make_div_node\<close>\<close>

definition make_div_node :: "directive \<Rightarrow> string \<Rightarrow> string list \<Rightarrow> node list" where
  "make_div_node self classname lines =
     (let div' = Element ''container'' [] [classname] [] [];
          rst = lines;
          node = node_extend (element ''section'') (nested_parse_with_titles (state self) rst);
          div' = node_extend div' (children node)
      in [div'])"

subsection \<open>\<^verbatim>\<open>ApiMemberDirective.run\<close>\<close>

text \<open>
  The result is the returned list of nodes, or the exception raised, together with
  the random source after the call. \<open>depth_value\<close> is line 48:
  \<^verbatim>\<open>int(self.options.get('depth', 0))\<close>, where \<^verbatim>\<open>int(0)\<close> is 0.
\<close>

definition depth_value :: "directive \<Rightarrow> error + int" where
  "depth_value self = (case options self ''depth'' of None \<Rightarrow> Inr 0 | Some v \<Rightarrow> int_of_str v)"

definition run :: "directive \<Rightarrow> random_source \<Rightarrow> (error + node list) \<times> random_source" where
  "run self rng =
     (case depth_value self of
        Inl e \<Rightarrow> (Inl e, rng)
      | Inr depth \<Rightarrow>
          (let (nodes_to_return, rng') =
                 (case options self ''refid'' of
                    None \<Rightarrow> ([], rng)
                  | Some refid \<Rightarrow>
                      (let rubric_text =
                             (case options self ''refname'' of
                                Some refname \<Rightarrow> refname
                              | None \<Rightarrow>
                                  (case options self ''name'' of
                                     Some name \<Rightarrow> name
                                   | None \<Rightarrow> refid));
                           rubric = text_element ''rubric'' rubric_text [];
                           (hex, rng') = uuid4_hex rng;
                           rubric = set_ids [''api-member-'' @ hex] rubric;
                           rubric = append_class ''api-member-rubric-hidden'' rubric
                       in ([rubric], rng')));
               apiMemberNode = Element ''container'' [] [''api-member-node''] [] [];
               apiMemberNode =
                 (if depth > 0
                  then append_class (''api-member-depth-'' @ str depth) apiMemberNode
                  else apiMemberNode);
               apiMemberNode =
                 (if depth mod 2 = 1
                  then append_class ''api-member-hide-bullet-point'' apiMemberNode
                  else apiMemberNode);
               apiMemberDefinition = Element ''container'' [] [''api-member-definition''] [] [];
               apiMemberDefinition =
                 node_extend apiMemberDefinition (make_div_node self ''api-member-bullet'' [''-'']);
               apiMemberDefinition =
                 (case options self ''name'' of
                    Some name \<Rightarrow>
                      node_extend apiMemberDefinition (make_div_node self ''api-member-name'' [name])
                  | None \<Rightarrow> apiMemberDefinition);
               apiMemberDefinition =
                 (case options self ''type'' of
                    Some ty \<Rightarrow>
                      node_extend apiMemberDefinition (make_div_node self ''api-member-type'' [ty])
                  | None \<Rightarrow> apiMemberDefinition);
               apiMemberDefinition =
                 (case options self ''annotation'' of
                    Some annotation \<Rightarrow>
                      node_extend apiMemberDefinition
                        (make_div_node self ''api-member-annotation'' [annotation])
                  | None \<Rightarrow> apiMemberDefinition);
               apiMemberDefinition =
                 (case options self ''refid'' of
                    Some refid \<Rightarrow>
                      (let link = text_element ''reference'' []
                                    [(''internal'', BoolAttr True), (''refid'', StrAttr refid)];
                           link = append_class ''headerlink'' link;
                           para = element ''paragraph'';
                           para = node_append para link
                       in node_extend apiMemberDefinition [para])
                  | None \<Rightarrow> apiMemberDefinition);
               apiMemberNode = node_append apiMemberNode apiMemberDefinition;
               apiMemberNode =
                 (if length (content self) > 0
                  then (let apiMemberDescription =
                              Element ''container'' [] [''api-member-description''] [] [];
                            apiMemberDescription =
                              node_extend apiMemberDescription
                                (nested_parse (state self) (content self) (content_offset self))
                        in node_append apiMemberNode apiMemberDescription)
                  else apiMemberNode);
               nodes_to_return = nodes_to_return @ [apiMemberNode]
           in (Inr nodes_to_return, rng')))"

subsection \<open>\<^verbatim>\<open>setup\<close>\<close>

text \<open>
  The directive class with its class attributes, the application with its registry of
  directives, and the dictionary that \<^verbatim>\<open>setup\<close> returns. \<open>setup_extension\<close> is
  \<^verbatim>\<open>setup\<close>; it returns the application after the registration and the dictionary.
\<close>

record directive_class =
  cls_optional_arguments :: nat
  cls_final_argument_whitespace :: bool
  cls_has_content :: bool
  cls_option_spec :: "(string \<times> (string option \<Rightarrow> error + string)) list"
  cls_run :: "directive \<Rightarrow> random_source \<Rightarrow> (error + node list) \<times> random_source"

definition ApiMemberDirective :: directive_class where
  "ApiMemberDirective =
     \<lparr>cls_optional_arguments = 0, cls_final_argument_whitespace = False,
      cls_has_content = True, cls_option_spec = option_spec, cls_run = run\<rparr>"

record app =
  registered_directives :: "string \<rightharpoonup> directive_class"

definition add_directive :: "string \<Rightarrow> directive_class \<Rightarrow> 'a app_scheme \<Rightarrow> 'a app_scheme" where
  "add_directive name cls app = app\<lparr>registered_directives := (registered_directives app)(name \<mapsto> cls)\<rparr>"

record extension_metadata =
  version :: string
  parallel_read_safe :: bool
  parallel_write_safe :: bool

definition setup_extension :: "'a app_scheme \<Rightarrow> 'a app_scheme \<times> extension_metadata" where
  "setup_extension app =
     (let app = add_directive ''api-member'' ApiMemberDirective app
      in (app, \<lparr>version = ''0.1'', parallel_read_safe = True, parallel_write_safe = True\<rparr>))"

subsection \<open>Reading the result\<close>

text \<open>
  The words of the specification for the parts of a returned list. The entry container
  is appended last (line 97) and the definition container is its first child (line 89).
  An entry container is a container whose first class is \<^verbatim>\<open>api-member-node\<close>; the hidden
  label is the rubric with the class that hides it; a headerlink paragraph is a paragraph
  with a child reference of class \<^verbatim>\<open>headerlink\<close>; a depth class starts with
  \<^verbatim>\<open>api-member-depth-\<close>.
\<close>

definition entry_container :: "node list \<Rightarrow> node" where
  "entry_container ns = last ns"

definition definition_container :: "node list \<Rightarrow> node" where
  "definition_container ns = hd (children (entry_container ns))"

definition is_entry_container :: "node \<Rightarrow> bool" where
  "is_entry_container n = (tagname n = ''container'' \<and> take 1 (classes n) = [''api-member-node''])"

definition is_hidden_label :: "node \<Rightarrow> bool" where
  "is_hidden_label n =
     (tagname n = ''rubric'' \<and> ''api-member-rubric-hidden'' \<in> set (classes n))"

definition is_headerlink :: "node \<Rightarrow> bool" where
  "is_headerlink n = (tagname n = ''reference'' \<and> ''headerlink'' \<in> set (classes n))"

definition is_headerlink_paragraph :: "node \<Rightarrow> bool" where
  "is_headerlink_paragraph n = (tagname n = ''paragraph'' \<and> list_ex is_headerlink (children n))"

definition is_depth_class :: "string \<Rightarrow> bool" where
  "is_depth_class c = (take 17 c = ''api-member-depth-'')"



subsection \<open>Sample invocations\<close>

text \<open>
  A host parser that turns every line into a paragraph, a random source that returns
  the same text at every draw, and a few option dictionaries.
\<close>

definition paragraph_state :: state where
  "paragraph_state =
     \<lparr>nested_parse_with_titles = map (\<lambda>l. text_element ''paragraph'' l []),
      nested_parse = (\<lambda>ls off. map (\<lambda>l. text_element ''paragraph'' l []) ls)\<rparr>"

definition fixed_source :: random_source where
  "fixed_source n = ''d2142963ff424b1ebc19e3a5255ca7d7''"

definition invocation :: "(string \<times> string) list \<Rightarrow> string list \<Rightarrow> directive" where
  "invocation opts body =
     \<lparr>options = map_of opts, content = body, content_offset = 0, state = paragraph_state\<rparr>"

definition ex_foo :: directive where
  "ex_foo = invocation [(''name'', ''foo''), (''type'', ''string''), (''depth'', ''1'')] []"

definition ex_plain :: directive where
  "ex_plain = invocation [(''name'', ''foo'')] [''A member.'']"

definition ex_even :: directive where
  "ex_even = invocation [(''name'', ''foo''), (''depth'', ''2'')] []"

definition ex_negative :: directive where
  "ex_negative = invocation [(''name'', ''foo''), (''depth'', ''-1'')] []"


definition ex_ref :: directive where
  "ex_ref =
     invocation [(''name'', ''foo''), (''refid'', ''api-func-foo''), (''refname'', ''Foo''),
                 (''annotation'', ''optional'')] []"

subsection \<open>What \<open>run\<close> returns\<close>



lemma run_failure: "depth_value self = Inl e \<Longrightarrow> run self rng = (Inl e, rng)"
  by (simp add: run_def)

lemma make_div_node_eq:
  "make_div_node self c ls = [Element ''container'' [] [c] [] (nested_parse_with_titles (state self) ls)]"
  by (simp add: make_div_node_def element_def)

lemma run_success:
  assumes "depth_value self = Inr d"
  shows "run self rng =
    (Inr ((case options self ''refid'' of
             None \<Rightarrow> []
           | Some r \<Rightarrow>
               [Element ''rubric'' [''api-member-'' @ rng 0] [''api-member-rubric-hidden''] []
                  (let t = (case options self ''refname'' of
                              Some x \<Rightarrow> x
                            | None \<Rightarrow> (case options self ''name'' of Some n \<Rightarrow> n | None \<Rightarrow> r))
                   in if t = [] then [] else [Text t])]) @
          [Element ''container'' []
             ([''api-member-node''] @
              (if 0 < d then [''api-member-depth-'' @ str d] else []) @
              (if d mod 2 = 1 then [''api-member-hide-bullet-point''] else []))
             []
             ([Element ''container'' [] [''api-member-definition''] []
                 (make_div_node self ''api-member-bullet'' [''-''] @
                  (case options self ''name'' of
                     None \<Rightarrow> [] | Some n \<Rightarrow> make_div_node self ''api-member-name'' [n]) @
                  (case options self ''type'' of
                     None \<Rightarrow> [] | Some t \<Rightarrow> make_div_node self ''api-member-type'' [t]) @
                  (case options self ''annotation'' of
                     None \<Rightarrow> [] | Some a \<Rightarrow> make_div_node self ''api-member-annotation'' [a]) @
                  (case options self ''refid'' of
                     None \<Rightarrow> []
                   | Some r \<Rightarrow>
                       [Element ''paragraph'' [] [] []
                          [Element ''reference'' [] [''headerlink'']
                             [(''internal'', BoolAttr True), (''refid'', StrAttr r)] []]]))] @
              (if content self = [] then []
               else [Element ''container'' [] [''api-member-description''] []
                       (nested_parse (state self) (content self) (content_offset self))]))]),
     (case options self ''refid'' of None \<Rightarrow> rng | Some r \<Rightarrow> (\<lambda>n. rng (Suc n))))"
  using assms
  by (simp add: run_def Let_def make_div_node_eq element_def text_element_def node_append_def
        uuid4_hex_def split: option.splits)


lemma depth_value_samples:
  "depth_value ex_plain = Inr 0" "depth_value ex_foo = Inr 1" "depth_value ex_even = Inr 2"
  "depth_value ex_negative = Inr (- 1)" "depth_value ex_ref = Inr 0"
  by (simp_all add: ex_plain_def ex_foo_def ex_even_def ex_negative_def ex_ref_def invocation_def
        depth_value_def int_of_str_def strip_def isspace_def digit_value_def max_str_digits_def)

lemma str_2: "str 2 = ''2''"
  by (simp add: str_def)

lemma ex_ref_options:
  "options ex_ref ''refid'' = Some ''api-func-foo''" "options ex_ref ''refname'' = Some ''Foo''"
  "options ex_ref ''name'' = Some ''foo''" "options ex_ref ''type'' = None"
  "options ex_ref ''annotation'' = Some ''optional''"
  by (simp_all add: ex_ref_def invocation_def)

lemma ex_foo_options:
  "options ex_foo ''refid'' = None" "options ex_foo ''name'' = Some ''foo''"
  "options ex_foo ''type'' = Some ''string''" "options ex_foo ''annotation'' = None"
  "options ex_foo ''refname'' = None" "content ex_foo = []"
  by (simp_all add: ex_foo_def invocation_def)



lemma ex_negative_options: "options ex_negative ''depth'' = Some ''-1''"
  by (simp add: ex_negative_def invocation_def)

lemma int_of_str_minus_one: "int_of_str ''-1'' = Inr (- 1)"
  by (simp add: int_of_str_def strip_def isspace_def digit_value_def max_str_digits_def)

subsection \<open>Failures\<close>



subsection \<open>Style classes of the entry container\<close>

text \<open>
  C2. With depth 0 (also when the option is absent) the entry container carries the
  class \<^verbatim>\<open>api-member-node\<close> alone; with an odd depth it carries the class that hides the
  bullet; with an even depth above 0 it carries the depth class and not the class that
  hides the bullet.
\<close>

theorem depth_style_classes:
  assumes "depth_value self = Inr d"
  shows "\<exists>ns. fst (run self rng) = Inr ns \<and>
     (if d = 0 then classes (entry_container ns) = [''api-member-node'']
      else if odd d then ''api-member-hide-bullet-point'' \<in> set (classes (entry_container ns))
      else if 0 < d then
        ''api-member-depth-'' @ str d \<in> set (classes (entry_container ns)) \<and>
        list_ex is_depth_class (classes (entry_container ns)) \<and>
        ''api-member-hide-bullet-point'' \<notin> set (classes (entry_container ns))
      else classes (entry_container ns) = [''api-member-node''])"
  by (simp add: run_success [OF assms] entry_container_def odd_iff_mod_2_eq_one is_depth_class_def)

theorem depth_style_classes_witness:
  "depth_value ex_plain = Inr 0 \<and> depth_value ex_foo = Inr 1 \<and> depth_value ex_even = Inr 2 \<and>
   (\<exists>ns. fst (run ex_plain fixed_source) = Inr ns \<and>
      classes (entry_container ns) = [''api-member-node'']) \<and>
   (\<exists>ns. fst (run ex_foo fixed_source) = Inr ns \<and>
      ''api-member-hide-bullet-point'' \<in> set (classes (entry_container ns))) \<and>
   (\<exists>ns. fst (run ex_even fixed_source) = Inr ns \<and>
      ''api-member-depth-2'' \<in> set (classes (entry_container ns)) \<and>
      ''api-member-hide-bullet-point'' \<notin> set (classes (entry_container ns)))"
  using depth_style_classes [OF depth_value_samples(1), of fixed_source]
    depth_style_classes [OF depth_value_samples(2), of fixed_source]
    depth_style_classes [OF depth_value_samples(3), of fixed_source]
  by (auto simp: depth_value_samples str_2)

text \<open>
  C9. When the text of \<^verbatim>\<open>depth\<close> is the literal of a negative integer, \<open>run\<close> returns a
  list: the entry container carries no depth class, and carries the class that hides the
  bullet exactly when the depth is odd (\<open>- 1 mod 2 = 1\<close>, as in Python).
\<close>

theorem negative_depth_classes:
  assumes "options self ''depth'' = Some v" and "int_of_str v = Inr d" and "d < 0"
  shows "\<exists>ns. fst (run self rng) = Inr ns \<and>
     \<not> list_ex is_depth_class (classes (entry_container ns)) \<and>
     (''api-member-hide-bullet-point'' \<in> set (classes (entry_container ns))) = odd d \<and>
     classes (entry_container ns) =
       (if odd d then [''api-member-node'', ''api-member-hide-bullet-point'']
        else [''api-member-node''])"
proof -
  have "depth_value self = Inr d"
    using assms(1,2) by (simp add: depth_value_def)
  from run_success [OF this] assms(3) show ?thesis
    by (simp add: entry_container_def odd_iff_mod_2_eq_one is_depth_class_def)
qed

theorem negative_depth_classes_witness:
  "options ex_negative ''depth'' = Some ''-1'' \<and> int_of_str ''-1'' = Inr (- 1) \<and> (- 1 :: int) < 0 \<and>
   (- 1 :: int) mod 2 = 1 \<and>
   (\<exists>ns. fst (run ex_negative fixed_source) = Inr ns \<and>
      classes (entry_container ns) = [''api-member-node'', ''api-member-hide-bullet-point''])"
  using negative_depth_classes [OF ex_negative_options int_of_str_minus_one, of fixed_source]
  by (auto simp: ex_negative_options int_of_str_minus_one)


subsection \<open>The hidden label\<close>

text \<open>
  C3. With \<^verbatim>\<open>refid\<close> present, the first returned node is the hidden label, and its text
  is \<^verbatim>\<open>refname\<close> when that is given (whatever \<^verbatim>\<open>name\<close> is), else \<^verbatim>\<open>name\<close> when that is
  given, else \<^verbatim>\<open>refid\<close>.
\<close>

theorem hidden_label_text:
  assumes "depth_value self = Inr d" and "options self ''refid'' = Some r"
  shows "\<exists>label entry. fst (run self rng) = Inr [label, entry] \<and> is_hidden_label label \<and>
     astext label =
       (case options self ''refname'' of
          Some refname \<Rightarrow> refname
        | None \<Rightarrow> (case options self ''name'' of Some name \<Rightarrow> name | None \<Rightarrow> r))"
  by (simp add: run_success [OF assms(1)] assms(2) is_hidden_label_def Let_def
        child_text_separator_def)

theorem hidden_label_text_witness:
  "depth_value ex_ref = Inr 0 \<and> options ex_ref ''refid'' = Some ''api-func-foo'' \<and>
   options ex_ref ''name'' = Some ''foo'' \<and>
   (\<exists>label entry. fst (run ex_ref fixed_source) = Inr [label, entry] \<and>
      is_hidden_label label \<and> astext label = ''Foo'')"
  using hidden_label_text [OF depth_value_samples(5) ex_ref_options(1), of fixed_source]
  by (simp add: depth_value_samples ex_ref_options)

text \<open>
  C4. Without \<^verbatim>\<open>refid\<close>, no returned node is a hidden label and no child of the
  definition container is a headerlink paragraph.
\<close>

theorem no_refid_no_label:
  assumes "depth_value self = Inr d" and "options self ''refid'' = None"
  shows "\<exists>ns. fst (run self rng) = Inr ns \<and> \<not> list_ex is_hidden_label ns \<and>
     \<not> list_ex is_headerlink_paragraph (children (definition_container ns))"
  by (simp add: run_success [OF assms(1)] assms(2) is_hidden_label_def entry_container_def
        definition_container_def make_div_node_eq is_headerlink_paragraph_def
        split: option.splits)

theorem no_refid_no_label_witness:
  "depth_value ex_foo = Inr 1 \<and> options ex_foo ''refid'' = None \<and>
   (\<exists>ns. fst (run ex_foo fixed_source) = Inr ns \<and> \<not> list_ex is_hidden_label ns \<and>
      \<not> list_ex is_headerlink_paragraph (children (definition_container ns)))"
  using no_refid_no_label [OF depth_value_samples(2) ex_foo_options(1), of fixed_source]
  by (simp add: depth_value_samples ex_foo_options)

text \<open>
  C5. \<open>run\<close> returns two nodes, the hidden label and then the entry container, when
  \<^verbatim>\<open>refid\<close> is present, and the entry container alone when it is absent.
\<close>

theorem run_returns_label_then_entry:
  assumes "depth_value self = Inr d"
  shows "\<exists>ns. fst (run self rng) = Inr ns \<and>
     (case options self ''refid'' of
        None \<Rightarrow> length ns = 1 \<and> is_entry_container (ns ! 0) \<and> \<not> is_hidden_label (ns ! 0)
      | Some r \<Rightarrow>
          length ns = 2 \<and> is_hidden_label (ns ! 0) \<and> \<not> is_entry_container (ns ! 0) \<and>
          is_entry_container (ns ! 1) \<and> \<not> is_hidden_label (ns ! 1))"
  by (simp add: run_success [OF assms] is_hidden_label_def is_entry_container_def
        split: option.splits)

theorem run_returns_label_then_entry_witness:
  "depth_value ex_ref = Inr 0 \<and> depth_value ex_foo = Inr 1 \<and>
   (\<exists>ns. fst (run ex_ref fixed_source) = Inr ns \<and> length ns = 2 \<and>
      is_hidden_label (ns ! 0) \<and> is_entry_container (ns ! 1)) \<and>
   (\<exists>ns. fst (run ex_foo fixed_source) = Inr ns \<and> length ns = 1 \<and>
      is_entry_container (ns ! 0))"
  using run_returns_label_then_entry [OF depth_value_samples(5), of fixed_source]
    run_returns_label_then_entry [OF depth_value_samples(2), of fixed_source]
  by (auto simp: depth_value_samples ex_ref_options ex_foo_options)

subsection \<open>The definition container\<close>



subsection \<open>Two invocations\<close>



text \<open>
  C10. Without \<^verbatim>\<open>refid\<close>, setting, changing or removing \<^verbatim>\<open>refname\<close> changes
  nothing in what \<open>run\<close> returns.
\<close>

theorem refname_ignored_without_refid:
  assumes "options self ''refid'' = None"
  shows "run (self\<lparr>options := (options self)(''refname'' := v)\<rparr>) rng = run self rng"
proof -
  let ?self' = "self\<lparr>options := (options self)(''refname'' := v)\<rparr>"
  have div: "make_div_node ?self' c ls = make_div_node self c ls" for c ls
    by (simp add: make_div_node_def)
  have opt: "options ?self' k = options self k" if "k \<noteq> ''refname''" for k
    using that by simp
  have depth: "depth_value ?self' = depth_value self"
    by (simp add: depth_value_def)
  show ?thesis
  proof (cases "depth_value self")
    case (Inl e)
    with depth show ?thesis by (simp add: run_failure)
  next
    case (Inr d)
    with depth have d': "depth_value ?self' = Inr d" by simp
    have refid': "options ?self' ''refid'' = None" using assms by simp
    show ?thesis
      unfolding run_success [OF d'] run_success [OF Inr] refid' assms div
      by (simp add: opt)
  qed
qed

theorem refname_ignored_without_refid_witness:
  "options ex_foo ''refid'' = None \<and> options ex_foo ''refname'' = None \<and>
   run (ex_foo\<lparr>options := (options ex_foo)(''refname'' \<mapsto> ''Foo'')\<rparr>) fixed_source =
     run ex_foo fixed_source"
  using refname_ignored_without_refid [OF ex_foo_options(1), of "Some ''Foo''" fixed_source]
  by (simp only: ex_foo_options simp_thms)

subsection \<open>Registration\<close>

text \<open>
  C8. For every application, \<^verbatim>\<open>setup\<close> registers the directive class under the name
  \<^verbatim>\<open>api-member\<close> and returns the version \<^verbatim>\<open>0.1\<close> with both parallel-safety flags true.
\<close>

theorem setup_registers_and_declares:
  "registered_directives (fst (setup_extension app)) ''api-member'' = Some ApiMemberDirective \<and>
   cls_run ApiMemberDirective = run \<and>
   version (snd (setup_extension app)) = ''0.1'' \<and>
   parallel_read_safe (snd (setup_extension app)) \<and>
   parallel_write_safe (snd (setup_extension app))"
  by (simp add: setup_extension_def add_directive_def ApiMemberDirective_def)

end
